theory Spec2Isabelle
  imports Main
begin

section \<open>Python helpers\<close>

text \<open>
  \<^verbatim>\<open>str.endswith\<close> and \<open>str.startswith\<close> on character lists, and the truth value
  Python gives an \<open>Optional[str]\<close> in a condition: \<open>None\<close> and the empty string are
  false, every other string is true.
\<close>

definition endswith :: "string \<Rightarrow> string \<Rightarrow> bool" where
  "endswith s suf = (length suf \<le> length s \<and> drop (length s - length suf) s = suf)"

definition startswith :: "string \<Rightarrow> string \<Rightarrow> bool" where
  "startswith s pre = (take (length pre) s = pre)"

fun truthy :: "string option \<Rightarrow> bool" where
  "truthy None = False"
| "truthy (Some s) = (s \<noteq> [])"

section \<open>The lock model (\<open>deplock/configs/poetry_lock.py\<close>)\<close>

record PoetryFile =
  file_name :: string
  hash :: string

record PoetrySource =
  source_type :: "string option"
  url :: "string option"
  reference :: "string option"

record PoetryDependency =
  dep_name :: string
  constraint :: "string option"
  dep_optional :: "bool option"
  dep_python_versions :: "string option"
  marker :: "string option"

record PoetryPackage =
  name :: string
  version :: string
  category :: string
  optional :: bool
  python_versions :: "string option"
  files :: "PoetryFile list"
  source :: "PoetrySource option"
  dependencies :: "PoetryDependency list"

record PoetryLockMetadata =
  lock_version :: string
  lock_python_versions :: "string option"
  content_hash :: "string option"

record PoetryLockConfig =
  metadata :: PoetryLockMetadata
  packages :: "PoetryPackage list"

section \<open>Environment, requirement, errors\<close>

text \<open>
  The environment class, the requirement class and the exception classes are imported by
  \<open>parser/poetry.py\<close>; the parser reads \<open>python_version\<close> and \<open>supported_tags()\<close> of
  the environment and builds a requirement from a name, a version, a fingerprint and an
  index URL. A tag is the interpreter/ABI/platform triple.
\<close>

datatype tag = Tag string string string

record PythonEnvironment =
  python_version :: string
  supported_tags :: "tag list"

record PythonRequirement =
  req_name :: string
  req_version :: string
  fingerprint :: string
  index_url :: "string option"

datatype error =
    MissingPythonEnvironmentError string
  | MissingLockMetadataError string
  | IncompatibleDistributionError string
  | InvalidLockVersionError
  | InvalidLockFileError string
  | AttributeError

datatype event = Debug string | Warning string

section \<open>The parser object (\<open>PoetryLock\<close>)\<close>

text \<open>
  The fields \<open>__init__\<close> sets, without the paths used to find the file on disk, and the
  trace of \<open>logger.debug\<close> and \<open>warnings.warn\<close> calls as \<open>emitted\<close>.
\<close>

record PoetryLock =
  data :: PoetryLockConfig
  python_target_env_spec :: "PythonEnvironment option"
  poetry_lock_is_validated :: bool
  valid_package_list :: "PoetryPackage list option"
  package_requirements :: "PythonRequirement list option"
  emitted :: "event list"

definition init_lock :: "PoetryLockConfig \<Rightarrow> PoetryLock" where
  "init_lock cfg =
     \<lparr> data = cfg,
       python_target_env_spec = None,
       poetry_lock_is_validated = False,
       valid_package_list = None,
       package_requirements = None,
       emitted = [] \<rparr>"

definition add_target_environment_specification ::
  "PythonEnvironment \<Rightarrow> PoetryLock \<Rightarrow> PoetryLock" where
  "add_target_environment_specification python_environment s =
     (let s1 = (case python_target_env_spec s of
                  None \<Rightarrow> s
                | Some _ \<Rightarrow> s\<lparr>emitted := emitted s @
                    [Warning (''Environment specification has already been set and will '' @
                              ''be overwritten.'')]\<rparr>)
      in s1\<lparr>python_target_env_spec := Some python_environment\<rparr>)"

section \<open>The Validator (\<open>validate_poetry_lock\<close>)\<close>

text \<open>
  Two library calls are parameters of the model. \<open>vpv specifier current_version\<close> stands
  for \<open>validate_python_version\<close>, the yes/no answer of the version predicate library.
  \<open>msi filename tags\<close> stands for \<open>Wheel(filename).get_minimum_supported_index(tags)\<close>
  of Poetry: the smallest position in \<open>tags\<close> of a tag of the wheel, or \<open>None\<close>.
\<close>

type_synonym version_predicate = "string \<Rightarrow> string \<Rightarrow> bool"
type_synonym wheel_index = "string \<Rightarrow> tag list \<Rightarrow> nat option"

text \<open>
  The test both the Validator and the Filter make: a constraint that is \<open>None\<close> or empty
  is not evaluated and counts as valid.
\<close>

fun valid_py_version :: "version_predicate \<Rightarrow> string option \<Rightarrow> string \<Rightarrow> bool" where
  "valid_py_version vpv None current = True"
| "valid_py_version vpv (Some specifier) current =
     (if specifier \<noteq> [] then vpv specifier current else True)"

definition validate_poetry_lock ::
  "version_predicate \<Rightarrow> PoetryLock \<Rightarrow> (error + unit) \<times> PoetryLock" where
  "validate_poetry_lock vpv s =
     (case python_target_env_spec s of
        None \<Rightarrow> (Inl (MissingPythonEnvironmentError ''No Python environment specified''), s)
      | Some env \<Rightarrow>
          if \<not> startswith (lock_version (metadata (data s))) ''2.''
          then (Inl InvalidLockVersionError, s)
          else if \<not> valid_py_version vpv (lock_python_versions (metadata (data s)))
                      (python_version env)
          then (Inl (InvalidLockFileError
                  ''Poetry lock file not compatible with target Python version''), s)
          else (Inr (), s\<lparr>poetry_lock_is_validated := True\<rparr>))"

section \<open>The Filter (\<open>get_valid_packages_from_lock\<close>)\<close>

definition excluded_message :: "PoetryPackage \<Rightarrow> string \<Rightarrow> string" where
  "excluded_message package current =
     ''Package '' @ name package @ '' is not compatible with '' @
     ''the target Python version '' @ current @ ''.''"

text \<open>
  The loop over \<open>self.data.packages\<close>; \<open>acc\<close> is the list \<open>self.valid_package_list\<close>
  holds when the iteration starts.
\<close>

fun filter_loop ::
  "version_predicate \<Rightarrow> string \<Rightarrow> PoetryPackage list \<Rightarrow> PoetryPackage list \<Rightarrow> PoetryLock
     \<Rightarrow> PoetryPackage list \<times> PoetryLock" where
  "filter_loop vpv current [] acc s = (acc, s)"
| "filter_loop vpv current (package # rest) acc s =
     (if \<not> valid_py_version vpv (python_versions package) current
      then filter_loop vpv current rest acc
             (s\<lparr>emitted := emitted s @ [Debug (excluded_message package current)]\<rparr>)
      else filter_loop vpv current rest (acc @ [package])
             (s\<lparr>valid_package_list := Some (acc @ [package])\<rparr>))"

definition get_valid_packages_from_lock ::
  "version_predicate \<Rightarrow> PoetryLock \<Rightarrow> (error + PoetryPackage list) \<times> PoetryLock" where
  "get_valid_packages_from_lock vpv s =
     (case python_target_env_spec s of
        None \<Rightarrow> (Inl (MissingPythonEnvironmentError ''No Python environment specified''), s)
      | Some env \<Rightarrow>
          (case filter_loop vpv (python_version env) (packages (data s)) []
                  (s\<lparr>valid_package_list := Some []\<rparr>) of
             (acc, s') \<Rightarrow> (Inr acc, s')))"

section \<open>The Selector (\<open>get_preferred_distributions\<close>)\<close>

text \<open>
  \<open>tag_index msi env\<close> gives a wheel file name its smallest index in the tags the environment
  supports.
\<close>

definition tag_index :: "wheel_index \<Rightarrow> PythonEnvironment \<Rightarrow> string \<Rightarrow> nat option" where
  "tag_index msi env filename = msi filename (supported_tags env)"

text \<open>
  One iteration of the loop over a package's distributions. The state of the loop is the
  pair \<open>(best_dist, min_tag_index)\<close>; \<open>idx\<close> is the wheel index against the
  environment's tags.
\<close>

fun dist_step ::
  "(string \<Rightarrow> nat option) \<Rightarrow> bool \<Rightarrow> PoetryFile \<Rightarrow> PoetryFile option \<times> nat option
     \<Rightarrow> PoetryFile option \<times> nat option" where
  "dist_step idx is_platform_specific dist (best_dist, min_tag_index) =
     (if endswith (file_name dist) ''.whl'' then
        (case idx (file_name dist) of
           None \<Rightarrow> (best_dist, min_tag_index)
         | Some matched_index \<Rightarrow>
             (case min_tag_index of
                None \<Rightarrow> (Some dist, Some matched_index)
              | Some m \<Rightarrow>
                  if matched_index < m then (Some dist, Some matched_index)
                  else (best_dist, min_tag_index)))
      else if \<not> is_platform_specific \<and> endswith (file_name dist) ''.tar.gz'' \<and> best_dist = None
      then (Some dist, min_tag_index)
      else (best_dist, min_tag_index))"

fun dist_loop ::
  "(string \<Rightarrow> nat option) \<Rightarrow> bool \<Rightarrow> PoetryFile list \<Rightarrow> PoetryFile option \<times> nat option
     \<Rightarrow> PoetryFile option \<times> nat option" where
  "dist_loop idx is_platform_specific [] st = st"
| "dist_loop idx is_platform_specific (dist # rest) st =
     dist_loop idx is_platform_specific rest (dist_step idx is_platform_specific dist st)"

definition binary_distributions :: "PoetryPackage \<Rightarrow> PoetryFile list" where
  "binary_distributions package = filter (\<lambda>dist. endswith (file_name dist) ''.whl'') (files package)"

definition is_platform_specific :: "PoetryPackage \<Rightarrow> bool" where
  "is_platform_specific package =
     (filter (\<lambda>dist. \<not> endswith (file_name dist) ''none-any.whl'') (binary_distributions package) \<noteq> [])"

definition best_dist :: "(string \<Rightarrow> nat option) \<Rightarrow> PoetryPackage \<Rightarrow> PoetryFile option" where
  "best_dist idx package =
     fst (dist_loop idx (is_platform_specific package) (files package) (None, None))"

definition incompatible_message :: "PoetryPackage \<Rightarrow> string" where
  "incompatible_message package =
     ''Could not find a distribution for '' @ name package @ ''=='' @ version package @
     '' that is compatible with '' @ ''target environment.''"

definition found_message :: "PoetryFile \<Rightarrow> string" where
  "found_message dist =
     ''Found compatible distribution for target '' @ ''environment: '' @ file_name dist"

definition source_url :: "PoetryPackage \<Rightarrow> string option" where
  "source_url package =
     (case source package of
        None \<Rightarrow> None
      | Some src \<Rightarrow> if truthy (url src) then url src else None)"

definition requirement :: "PoetryPackage \<Rightarrow> PoetryFile \<Rightarrow> PythonRequirement" where
  "requirement package dist =
     \<lparr> req_name = name package,
       req_version = version package,
       fingerprint = hash dist,
       index_url = source_url package \<rparr>"

text \<open>
  The loop over \<open>self.valid_package_list\<close>; \<open>acc\<close> is the list
  \<open>self.package_requirements\<close> holds when the iteration starts. The \<open>raise\<close> leaves
  the loop with the state as it is.
\<close>

fun package_loop ::
  "(string \<Rightarrow> nat option) \<Rightarrow> PoetryPackage list \<Rightarrow> PythonRequirement list \<Rightarrow> PoetryLock
     \<Rightarrow> (error + PythonRequirement list) \<times> PoetryLock" where
  "package_loop idx [] acc s = (Inr acc, s)"
| "package_loop idx (package # rest) acc s =
     (case best_dist idx package of
        None \<Rightarrow> (Inl (IncompatibleDistributionError (incompatible_message package)), s)
      | Some dist \<Rightarrow>
          package_loop idx rest (acc @ [requirement package dist])
            (s\<lparr>emitted := emitted s @ [Debug (found_message dist)],
               package_requirements := Some (acc @ [requirement package dist])\<rparr>))"

definition not_validated_message :: string where
  "not_validated_message =
     ''Packages have not been validated against '' @
     ''the current Python environment. Specify a '' @
     ''target environment and validate lock file '' @
     ''against this environment '' @
     ''before continuing.''"

definition get_preferred_distributions ::
  "wheel_index \<Rightarrow> PoetryLock \<Rightarrow> (error + PythonRequirement list) \<times> PoetryLock" where
  "get_preferred_distributions msi s =
     (case valid_package_list s of
        None \<Rightarrow> (Inl (MissingLockMetadataError not_validated_message), s)
      | Some [] \<Rightarrow> (Inl (MissingLockMetadataError not_validated_message), s)
      | Some (p # ps) \<Rightarrow>
          (case python_target_env_spec s of
             None \<Rightarrow> (Inl AttributeError, s\<lparr>package_requirements := Some []\<rparr>)
           | Some env \<Rightarrow>
               package_loop (tag_index msi env) (p # ps) []
                 (s\<lparr>package_requirements := Some []\<rparr>)))"

text \<open>
  The pipeline of the three stages on one parser object, each stage run on the state the
  previous one left, stopping at the first stage that raises.
\<close>

definition run_pipeline ::
  "version_predicate \<Rightarrow> wheel_index \<Rightarrow> PoetryLock
     \<Rightarrow> (error + PythonRequirement list) \<times> PoetryLock" where
  "run_pipeline vpv msi s =
     (case validate_poetry_lock vpv s of
        (Inl e, s1) \<Rightarrow> (Inl e, s1)
      | (Inr _, s1) \<Rightarrow>
          (case get_valid_packages_from_lock vpv s1 of
             (Inl e, s2) \<Rightarrow> (Inl e, s2)
           | (Inr _, s2) \<Rightarrow> get_preferred_distributions msi s2))"


section \<open>Vocabulary of the claims\<close>


text \<open>
  The spec's reading of the schema version: its major component is what stands before the
  first dot, and the supported set is major version 2.
\<close>

definition major_component :: "string \<Rightarrow> string" where
  "major_component v = takeWhile (\<lambda>c. c \<noteq> CHR ''.'') v"

definition supported_major :: "string \<Rightarrow> bool" where
  "supported_major v = (major_component v = ''2'')"


section \<open>Concrete inputs\<close>

text \<open>
  An instance of the two library parameters, small enough to evaluate: a specifier admits
  a version when it is \<open>*\<close> or \<open>==\<close> that version, and a wheel matches the first tag of
  the table that its file name ends with.
\<close>

definition example_vpv :: version_predicate where
  "example_vpv specifier current = (specifier = ''*'' \<or> specifier = ''=='' @ current)"

fun first_index :: "string \<Rightarrow> tag list \<Rightarrow> nat \<Rightarrow> nat option" where
  "first_index filename [] i = None"
| "first_index filename (Tag py abi plat # ts) i =
     (if endswith filename (py @ ''-'' @ abi @ ''-'' @ plat @ ''.whl'') then Some i
      else first_index filename ts (Suc i))"

definition example_msi :: wheel_index where
  "example_msi filename tags = first_index filename tags 0"

definition example_env :: PythonEnvironment where
  "example_env =
     \<lparr> python_version = ''3.11'',
       supported_tags = [Tag ''cp311'' ''cp311'' ''linux'', Tag ''cp311'' ''abi3'' ''linux'',
                         Tag ''py3'' ''none'' ''any''] \<rparr>"

text \<open>A package built as the model class builds it when only these fields are given.\<close>

definition mk_package ::
  "string \<Rightarrow> string \<Rightarrow> string option \<Rightarrow> PoetryFile list \<Rightarrow> PoetryPackage" where
  "mk_package n v pv fs =
     \<lparr> name = n, version = v, category = ''main'', optional = False, python_versions = pv,
       files = fs, source = None, dependencies = [] \<rparr>"

definition numpy_pkg :: PoetryPackage where
  "numpy_pkg = mk_package ''numpy'' ''1.26.0'' (Some ''==3.11'')
     [\<lparr>file_name = ''numpy-1.26.0.tar.gz'', hash = ''h0''\<rparr>,
      \<lparr>file_name = ''numpy-1.26.0-cp39-cp39-linux.whl'', hash = ''h1''\<rparr>,
      \<lparr>file_name = ''numpy-1.26.0-cp311-abi3-linux.whl'', hash = ''h2''\<rparr>,
      \<lparr>file_name = ''numpy-1.26.0-cp311-cp311-linux.whl'', hash = ''h3''\<rparr>]"

definition requests_pkg :: PoetryPackage where
  "requests_pkg = mk_package ''requests'' ''2.31.0'' None
     [\<lparr>file_name = ''requests-2.31.0-py2-none-any.whl'', hash = ''r0''\<rparr>,
      \<lparr>file_name = ''requests-2.31.0.tar.gz'', hash = ''r1''\<rparr>,
      \<lparr>file_name = ''requests-2.31.0.post1.tar.gz'', hash = ''r2''\<rparr>]"


definition old_pkg :: PoetryPackage where
  "old_pkg = mk_package ''old'' ''0.3'' (Some ''==2.7'') []"

definition example_config :: "string \<Rightarrow> string option \<Rightarrow> PoetryPackage list \<Rightarrow> PoetryLockConfig" where
  "example_config lv pv pkgs =
     \<lparr> metadata = \<lparr>lock_version = lv, lock_python_versions = pv, content_hash = None\<rparr>,
       packages = pkgs \<rparr>"

definition example_lock :: "string \<Rightarrow> string option \<Rightarrow> PoetryPackage list \<Rightarrow> PoetryLock" where
  "example_lock lv pv pkgs =
     add_target_environment_specification example_env (init_lock (example_config lv pv pkgs))"


section \<open>The loop over the distributions of one package\<close>













section \<open>The loop over the valid packages\<close>

lemma package_loop_fst_state:
  "fst (package_loop idx ps acc s) = fst (package_loop idx ps acc s')"
proof (induction ps arbitrary: acc s s')
  case Nil
  show ?case by simp
next
  case (Cons p ps)
  show ?case
  proof (cases "best_dist idx p")
    case None
    then show ?thesis by simp
  next
    case (Some d)
    then show ?thesis using Cons.IH by simp
  qed
qed

lemma package_loop_frame:
  "data (snd (package_loop idx ps acc s)) = data s"
  "python_target_env_spec (snd (package_loop idx ps acc s)) = python_target_env_spec s"
  "valid_package_list (snd (package_loop idx ps acc s)) = valid_package_list s"
  "poetry_lock_is_validated (snd (package_loop idx ps acc s)) = poetry_lock_is_validated s"
  by (induction ps arbitrary: acc s; simp split: option.splits)+




section \<open>The Selector as a whole\<close>

lemma selector_unfold:
  "valid_package_list s = Some pkgs \<Longrightarrow> pkgs \<noteq> [] \<Longrightarrow> python_target_env_spec s = Some env \<Longrightarrow>
   get_preferred_distributions msi s =
     package_loop (tag_index msi env) pkgs []
       (s\<lparr>package_requirements := Some []\<rparr>)"
  by (cases pkgs) (simp_all add: get_preferred_distributions_def)

section \<open>The loop over the packages of the lock\<close>

lemma filter_loop_fst:
  "fst (filter_loop vpv current ps acc s) =
     acc @ filter (\<lambda>p. valid_py_version vpv (python_versions p) current) ps"
  by (induction ps arbitrary: acc s) simp_all

lemma filter_loop_valid_package_list:
  "valid_package_list s = Some acc \<Longrightarrow>
   valid_package_list (snd (filter_loop vpv current ps acc s)) =
     Some (acc @ filter (\<lambda>p. valid_py_version vpv (python_versions p) current) ps)"
  by (induction ps arbitrary: acc s) simp_all


lemma filter_loop_frame:
  "data (snd (filter_loop vpv current ps acc s)) = data s"
  "python_target_env_spec (snd (filter_loop vpv current ps acc s)) = python_target_env_spec s"
  "poetry_lock_is_validated (snd (filter_loop vpv current ps acc s)) = poetry_lock_is_validated s"
  "package_requirements (snd (filter_loop vpv current ps acc s)) = package_requirements s"
  by (induction ps arbitrary: acc s; simp)+


section \<open>The distribution chosen for one package\<close>




section \<open>Outcomes of the Selector\<close>






section \<open>Outcomes of the Filter\<close>

lemma filter_result:
  "python_target_env_spec s = Some env \<Longrightarrow>
   fst (get_valid_packages_from_lock vpv s) =
     Inr (filter (\<lambda>p. valid_py_version vpv (python_versions p) (python_version env))
            (packages (data s)))"
  using filter_loop_fst [of vpv "python_version env" "packages (data s)" "[]"
      "s\<lparr>valid_package_list := Some []\<rparr>"]
  by (simp add: get_valid_packages_from_lock_def case_prod_beta)

lemma filter_records_result:
  assumes "fst (get_valid_packages_from_lock vpv s) = Inr ps"
  shows "valid_package_list (snd (get_valid_packages_from_lock vpv s)) = Some ps"
proof (cases "python_target_env_spec s")
  case None
  with assms show ?thesis by (simp add: get_valid_packages_from_lock_def)
next
  case (Some env)
  let ?s0 = "s\<lparr>valid_package_list := Some []\<rparr>"
  have v0: "valid_package_list ?s0 = Some []" by simp
  have a: "valid_package_list (snd (filter_loop vpv (python_version env) (packages (data s)) [] ?s0)) =
        Some (fst (filter_loop vpv (python_version env) (packages (data s)) [] ?s0))"
    using filter_loop_valid_package_list [OF v0, of vpv "python_version env" "packages (data s)"]
      filter_loop_fst [of vpv "python_version env" "packages (data s)" "[]" ?s0]
    by simp
  show ?thesis using assms a Some
    by (simp add: get_valid_packages_from_lock_def case_prod_beta)
qed

section \<open>Outcomes of the Validator and of the pipeline\<close>



lemma startswith_two_dot:
  "startswith v ''2.'' \<longleftrightarrow> supported_major v \<and> v \<noteq> ''2''"
proof (cases v)
  case Nil
  then show ?thesis by (simp add: startswith_def supported_major_def major_component_def)
next
  case (Cons a w)
  show ?thesis
  proof (cases w)
    case Nil
    with Cons show ?thesis
      by (auto simp: startswith_def supported_major_def major_component_def)
  next
    case (Cons b u)
    with \<open>v = a # w\<close> show ?thesis
      by (auto simp: startswith_def supported_major_def major_component_def)
  qed
qed

lemma validate_frame:
  "data (snd (validate_poetry_lock vpv s)) = data s"
  "python_target_env_spec (snd (validate_poetry_lock vpv s)) = python_target_env_spec s"
  by (simp_all add: validate_poetry_lock_def split: option.splits)


lemma filter_frame:
  "data (snd (get_valid_packages_from_lock vpv s)) = data s"
  "python_target_env_spec (snd (get_valid_packages_from_lock vpv s)) = python_target_env_spec s"
  by (simp_all add: get_valid_packages_from_lock_def case_prod_beta filter_loop_frame
      split: option.splits)


lemma selector_frame:
  "data (snd (get_preferred_distributions msi s)) = data s"
  "python_target_env_spec (snd (get_preferred_distributions msi s)) = python_target_env_spec s"
  by (simp_all add: get_preferred_distributions_def package_loop_frame
      split: option.splits list.splits)

lemma selector_fst:
  assumes "valid_package_list s = Some kept" and "python_target_env_spec s = Some env"
  shows "fst (get_preferred_distributions msi s) =
           (if kept = [] then Inl (MissingLockMetadataError not_validated_message)
            else fst (package_loop (tag_index msi env) kept [] t))"
proof (cases kept)
  case Nil
  with assms show ?thesis by (simp add: get_preferred_distributions_def)
next
  case (Cons p ps)
  then have ne: "kept \<noteq> []" by simp
  show ?thesis
    using selector_unfold [OF assms(1) ne assms(2), of msi]
      package_loop_fst_state [of "tag_index msi env" kept "[]" "s\<lparr>package_requirements := Some []\<rparr>" t]
      ne by simp
qed



lemma run_pipeline_fst:
  "fst (run_pipeline vpv msi s) =
     (case python_target_env_spec s of
        None \<Rightarrow> Inl (MissingPythonEnvironmentError ''No Python environment specified'')
      | Some env \<Rightarrow>
          if \<not> startswith (lock_version (metadata (data s))) ''2.''
          then Inl InvalidLockVersionError
          else if \<not> valid_py_version vpv (lock_python_versions (metadata (data s)))
                      (python_version env)
          then Inl (InvalidLockFileError
                  ''Poetry lock file not compatible with target Python version'')
          else if filter (\<lambda>p. valid_py_version vpv (python_versions p) (python_version env))
                    (packages (data s)) = []
          then Inl (MissingLockMetadataError not_validated_message)
          else fst (package_loop (tag_index msi env)
                 (filter (\<lambda>p. valid_py_version vpv (python_versions p) (python_version env))
                    (packages (data s))) [] t))"
proof (cases "python_target_env_spec s")
  case None
  then show ?thesis by (simp add: run_pipeline_def validate_poetry_lock_def)
next
  case (Some env)
  let ?kept = "filter (\<lambda>p. valid_py_version vpv (python_versions p) (python_version env))
                    (packages (data s))"
  show ?thesis
  proof (cases "startswith (lock_version (metadata (data s))) ''2.'' \<and>
                valid_py_version vpv (lock_python_versions (metadata (data s))) (python_version env)")
    case False
    with Some show ?thesis by (auto simp: run_pipeline_def validate_poetry_lock_def)
  next
    case True
    let ?s1 = "s\<lparr>poetry_lock_is_validated := True\<rparr>"
    have v: "validate_poetry_lock vpv s = (Inr (), ?s1)"
      using Some True by (simp add: validate_poetry_lock_def)
    have e1: "python_target_env_spec ?s1 = Some env" using Some by simp
    have f: "fst (get_valid_packages_from_lock vpv ?s1) = Inr ?kept"
      using filter_result [OF e1, of vpv] by simp
    obtain s2 where g: "get_valid_packages_from_lock vpv ?s1 = (Inr ?kept, s2)"
      using f by (cases "get_valid_packages_from_lock vpv ?s1") simp
    have vl: "valid_package_list s2 = Some ?kept"
      using filter_records_result [OF f] g by simp
    have e2: "python_target_env_spec s2 = Some env"
      using filter_frame(2) [of vpv ?s1] e1 g by simp
    have "run_pipeline vpv msi s = get_preferred_distributions msi s2"
      by (simp add: run_pipeline_def v g)
    then show ?thesis
      using selector_fst [OF vl e2, of msi t] Some True by simp
  qed
qed

lemma run_pipeline_frame:
  "data (snd (run_pipeline vpv msi s)) = data s \<and>
   python_target_env_spec (snd (run_pipeline vpv msi s)) = python_target_env_spec s"
proof -
  obtain r1 s1 where v: "validate_poetry_lock vpv s = (r1, s1)"
    by (cases "validate_poetry_lock vpv s") blast
  have s1: "data s1 = data s" "python_target_env_spec s1 = python_target_env_spec s"
    using validate_frame [of vpv s] v by simp_all
  obtain r2 s2 where f: "get_valid_packages_from_lock vpv s1 = (r2, s2)"
    by (cases "get_valid_packages_from_lock vpv s1") blast
  have s2: "data s2 = data s" "python_target_env_spec s2 = python_target_env_spec s"
    using filter_frame [of vpv s1] f s1 by simp_all
  show ?thesis
    using v f s1 s2 selector_frame [of msi s2]
    by (simp add: run_pipeline_def split: sum.splits)
qed

section \<open>Claims about the Selector\<close>

















text \<open>
  Claim C10. When the Filter returns the empty list, the Selector called next raises
  \<open>MissingLockMetadataError\<close> with the same message as on an object the Filter never
  ran on, and returns no list.
\<close>

theorem C10_empty_filter_output:
  assumes "fst (get_valid_packages_from_lock vpv s) = Inr []"
  shows "get_preferred_distributions msi (snd (get_valid_packages_from_lock vpv s)) =
           (Inl (MissingLockMetadataError not_validated_message),
            snd (get_valid_packages_from_lock vpv s)) \<and>
         (\<forall>s0. valid_package_list s0 = None \<longrightarrow>
            get_preferred_distributions msi s0 =
              (Inl (MissingLockMetadataError not_validated_message), s0))"
  using filter_records_result [OF assms]
  by (simp add: get_preferred_distributions_def)


text \<open>The theorem on a lock whose only package asks for Python 2.7.\<close>

lemma example_filtered_old:
  "fst (get_valid_packages_from_lock example_vpv (example_lock ''2.0'' None [old_pkg])) = Inr []"
  by (simp add: get_valid_packages_from_lock_def example_lock_def
      add_target_environment_specification_def init_lock_def example_config_def
      old_pkg_def mk_package_def example_vpv_def example_env_def)

lemma init_lock_fields:
  "python_target_env_spec (init_lock cfg) = None"
  "valid_package_list (init_lock cfg) = None"
  "data (init_lock cfg) = cfg"
  by (simp_all add: init_lock_def)

theorem C10_empty_filter_output_witness:
  "get_preferred_distributions example_msi
       (snd (get_valid_packages_from_lock example_vpv (example_lock ''2.0'' None [old_pkg]))) =
     (Inl (MissingLockMetadataError not_validated_message),
      snd (get_valid_packages_from_lock example_vpv (example_lock ''2.0'' None [old_pkg]))) \<and>
   get_preferred_distributions example_msi (init_lock (example_config ''2.0'' None [old_pkg])) =
     (Inl (MissingLockMetadataError not_validated_message),
      init_lock (example_config ''2.0'' None [old_pkg]))"
  using C10_empty_filter_output [OF example_filtered_old, of example_msi] init_lock_fields(2)
  by blast

section \<open>Claims about the Validator, the Filter and the pipeline\<close>

lemma example_lock_env:
  "python_target_env_spec (example_lock lv pv pkgs) = Some example_env"
  by (simp add: example_lock_def add_target_environment_specification_def init_lock_def)

lemma example_lock_data:
  "data (example_lock lv pv pkgs) = example_config lv pv pkgs"
  by (simp add: example_lock_def add_target_environment_specification_def init_lock_def)


text \<open>
  Claim C6, as amended. With an environment supplied, the Validator fails with
  \<open>InvalidLockVersionError\<close> exactly when the schema version string does not start with
  \<open>2.\<close>; a string starts with \<open>2.\<close> exactly when its major component is 2 and it is not
  the bare \<open>2\<close>. The failure leaves the object as it is and is the same for every package
  list, so no package is examined before it.
\<close>

theorem C6_unsupported_schema_version:
  assumes "python_target_env_spec s = Some env"
  shows "(fst (validate_poetry_lock vpv s) = Inl InvalidLockVersionError \<longleftrightarrow>
            \<not> startswith (lock_version (metadata (data s))) ''2.'') \<and>
         (startswith (lock_version (metadata (data s))) ''2.'' \<longleftrightarrow>
            supported_major (lock_version (metadata (data s))) \<and>
            lock_version (metadata (data s)) \<noteq> ''2'') \<and>
         (\<not> startswith (lock_version (metadata (data s))) ''2.'' \<longrightarrow>
            (\<forall>pkgs. validate_poetry_lock vpv (s\<lparr>data := (data s)\<lparr>packages := pkgs\<rparr>\<rparr>) =
                      (Inl InvalidLockVersionError, s\<lparr>data := (data s)\<lparr>packages := pkgs\<rparr>\<rparr>)))"
proof -
  have a: "fst (validate_poetry_lock vpv s) = Inl InvalidLockVersionError \<longleftrightarrow>
            \<not> startswith (lock_version (metadata (data s))) ''2.''"
    using assms by (simp add: validate_poetry_lock_def)
  have b: "\<not> startswith (lock_version (metadata (data s))) ''2.'' \<longrightarrow>
            (\<forall>pkgs. validate_poetry_lock vpv (s\<lparr>data := (data s)\<lparr>packages := pkgs\<rparr>\<rparr>) =
                      (Inl InvalidLockVersionError, s\<lparr>data := (data s)\<lparr>packages := pkgs\<rparr>\<rparr>))"
    using assms by (simp add: validate_poetry_lock_def)
  from a b startswith_two_dot [of "lock_version (metadata (data s))"] show ?thesis by blast
qed

text \<open>The theorem on a lock of schema version 1.0.\<close>

lemma example_lock_unsupported:
  "\<not> startswith (lock_version (metadata (data (example_lock ''1.0'' pv pkgs)))) ''2.''"
  by (simp add: example_lock_data example_config_def startswith_def)

theorem C6_unsupported_schema_version_witness:
  "fst (validate_poetry_lock example_vpv (example_lock ''1.0'' None [numpy_pkg])) =
     Inl InvalidLockVersionError \<and>
   (\<forall>pkgs. validate_poetry_lock example_vpv
              ((example_lock ''1.0'' None [numpy_pkg])
                 \<lparr>data := (data (example_lock ''1.0'' None [numpy_pkg]))\<lparr>packages := pkgs\<rparr>\<rparr>) =
            (Inl InvalidLockVersionError,
             (example_lock ''1.0'' None [numpy_pkg])
                 \<lparr>data := (data (example_lock ''1.0'' None [numpy_pkg]))\<lparr>packages := pkgs\<rparr>\<rparr>))"
  using C6_unsupported_schema_version
      [OF example_lock_env [of "''1.0''" None "[numpy_pkg]"], of example_vpv]
    example_lock_unsupported [of None "[numpy_pkg]"]
  by blast

text \<open>
  Claim C6, as stated, fails on the schema version \<open>2\<close>: its major component is 2, and
  the Validator raises \<open>InvalidLockVersionError\<close>.
\<close>

theorem C6_counterexample:
  "supported_major ''2'' \<and>
   python_target_env_spec (example_lock ''2'' None []) = Some example_env \<and>
   fst (validate_poetry_lock example_vpv (example_lock ''2'' None [])) =
     Inl InvalidLockVersionError"
  by (simp add: supported_major_def major_component_def validate_poetry_lock_def
      example_lock_def add_target_environment_specification_def init_lock_def
      example_config_def startswith_def)










text \<open>
  Claim C9. Running the pipeline again on the object the first run left gives the same
  outcome, the same list of requirements or the same error, as the first run; so does a run
  on any object holding the same lock and environment.
\<close>

theorem C9_pipeline_idempotent:
  "fst (run_pipeline vpv msi (snd (run_pipeline vpv msi s))) = fst (run_pipeline vpv msi s) \<and>
   (\<forall>s'. data s' = data s \<and> python_target_env_spec s' = python_target_env_spec s \<longrightarrow>
      fst (run_pipeline vpv msi s') = fst (run_pipeline vpv msi s))"
proof -
  have same: "fst (run_pipeline vpv msi s') = fst (run_pipeline vpv msi s)"
    if "data s' = data s" and "python_target_env_spec s' = python_target_env_spec s" for s'
    unfolding run_pipeline_fst [of vpv msi s' s] run_pipeline_fst [of vpv msi s s]
    using that by (simp only:)
  have again: "fst (run_pipeline vpv msi (snd (run_pipeline vpv msi s))) =
               fst (run_pipeline vpv msi s)"
    by (rule same [OF run_pipeline_frame [THEN conjunct1] run_pipeline_frame [THEN conjunct2]])
  show ?thesis
  proof (intro conjI allI impI)
    show "fst (run_pipeline vpv msi (snd (run_pipeline vpv msi s))) =
          fst (run_pipeline vpv msi s)"
      by (rule again)
  next
    fix s' :: PoetryLock
    assume h: "data s' = data s \<and> python_target_env_spec s' = python_target_env_spec s"
    show "fst (run_pipeline vpv msi s') = fst (run_pipeline vpv msi s)"
      by (rule same [OF conjunct1 [OF h] conjunct2 [OF h]])
  qed
qed

text \<open>The theorem on a lock of three packages, the second excluded by the Filter.\<close>

lemma example_pipeline_result:
  "fst (run_pipeline example_vpv example_msi
          (example_lock ''2.0'' None [numpy_pkg, old_pkg, requests_pkg])) =
     Inr [\<lparr>req_name = ''numpy'', req_version = ''1.26.0'', fingerprint = ''h3'',
            index_url = None\<rparr>,
          \<lparr>req_name = ''requests'', req_version = ''2.31.0'', fingerprint = ''r1'',
            index_url = None\<rparr>]"
  by code_simp

theorem C9_pipeline_idempotent_witness:
  "fst (run_pipeline example_vpv example_msi
          (snd (run_pipeline example_vpv example_msi
                  (example_lock ''2.0'' None [numpy_pkg, old_pkg, requests_pkg])))) =
     Inr [\<lparr>req_name = ''numpy'', req_version = ''1.26.0'', fingerprint = ''h3'',
            index_url = None\<rparr>,
          \<lparr>req_name = ''requests'', req_version = ''2.31.0'', fingerprint = ''r1'',
            index_url = None\<rparr>] \<and>
   fst (run_pipeline example_vpv example_msi
          ((example_lock ''2.0'' None [numpy_pkg, old_pkg, requests_pkg])
             \<lparr>poetry_lock_is_validated := True, package_requirements := Some []\<rparr>)) =
     Inr [\<lparr>req_name = ''numpy'', req_version = ''1.26.0'', fingerprint = ''h3'',
            index_url = None\<rparr>,
          \<lparr>req_name = ''requests'', req_version = ''2.31.0'', fingerprint = ''r1'',
            index_url = None\<rparr>]"
proof -
  let ?L = "example_lock ''2.0'' None [numpy_pkg, old_pkg, requests_pkg]"
  let ?L' = "?L\<lparr>poetry_lock_is_validated := True, package_requirements := Some []\<rparr>"
  have same: "data ?L' = data ?L \<and> python_target_env_spec ?L' = python_target_env_spec ?L"
    by simp
  have again: "fst (run_pipeline example_vpv example_msi
                      (snd (run_pipeline example_vpv example_msi ?L))) =
               fst (run_pipeline example_vpv example_msi ?L)"
    by (rule C9_pipeline_idempotent [of example_vpv example_msi ?L, THEN conjunct1])
  have other: "fst (run_pipeline example_vpv example_msi ?L') =
               fst (run_pipeline example_vpv example_msi ?L)"
    using C9_pipeline_idempotent [of example_vpv example_msi ?L, THEN conjunct2] same
    by blast
  show ?thesis
    by (simp only: again other example_pipeline_result)
qed


end
